theory Spec2Isabelle
  imports Main
begin

section \<open>Python exceptions\<close>

text \<open>
  The exception classes the bot's code raises, catches or lets through. \<open>OtherError\<close> stands
  for any class that no \<open>except\<close> clause of the source names.
\<close>

datatype py_error =
    KeyError
  | TypeError
  | AttributeError
  | ValueError
  | HTTPError
  | ConnectionError
  | BadRequest
  | OtherError

section \<open>The regular expressions of \<open>main.py\<close>\<close>

text \<open>
  Texts are \<open>string\<close>s, one \<open>char\<close> per character of the Python \<open>str\<close>. The three patterns of
  the source are matched by hand-written prefix matchers that follow the priority order of
  a backtracking engine: a greedy repeat tries its longest extent first, an alternation its
  left branch first. Each matcher returns what \<open>re.findall\<close> reports for the match together
  with the text that follows it.
\<close>

definition is_digit :: "char \<Rightarrow> bool" where
  "is_digit c = (c \<in> set ''0123456789'')"

definition is_alnum :: "char \<Rightarrow> bool" where
  "is_alnum c =
     (c \<in> set ''abcdefghijklmnopqrstuvwxyzABCDEFGHIJKLMNOPQRSTUVWXYZ0123456789'')"

definition is_word :: "char \<Rightarrow> bool" where
  "is_word c = (is_alnum c \<or> c = CHR ''_'')"

definition newline :: char where
  "newline = CHR 0x0A"

fun strip_prefix :: "string \<Rightarrow> string \<Rightarrow> string option" where
  "strip_prefix [] s = Some s"
| "strip_prefix (p # ps) [] = None"
| "strip_prefix (p # ps) (c # cs) = (if p = c then strip_prefix ps cs else None)"

definition orelse :: "'a option \<Rightarrow> 'a option \<Rightarrow> 'a option" where
  "orelse a b = (case a of Some x \<Rightarrow> Some x | None \<Rightarrow> b)"

text \<open>\<^verbatim>\<open>([0-9]{1,20})\<close> at the end of the pattern: the longest run of digits, at most 20.\<close>

definition match_digits :: "string \<Rightarrow> (string \<times> string) option" where
  "match_digits s =
     (let ds = take 20 (takeWhile is_digit s)
      in if ds = [] then None else Some (ds, drop (length ds) s))"

text \<open>\<^verbatim>\<open>/(?:web|status(?:es)?)/([0-9]{1,20})\<close>\<close>

definition match_section :: "string \<Rightarrow> (string \<times> string) option" where
  "match_section s =
     orelse (Option.bind (strip_prefix ''/web/'' s) match_digits)
       (orelse (Option.bind (strip_prefix ''/statuses/'' s) match_digits)
          (Option.bind (strip_prefix ''/status/'' s) match_digits))"

text \<open>
  \<^verbatim>\<open>.{1,15}\<close> followed by the rest of the pattern: \<open>match_user n s\<close> lets the dot consume
  \<open>n\<close>, \<open>n - 1\<close>, ..., \<open>1\<close> characters in turn (none of them a newline) and takes the first
  extent after which the rest matches.
\<close>

fun match_user :: "nat \<Rightarrow> string \<Rightarrow> (string \<times> string) option" where
  "match_user 0 s = None"
| "match_user (Suc k) s =
     (if Suc k \<le> length (takeWhile (\<lambda>c. c \<noteq> newline) s)
      then orelse (match_section (drop (Suc k) s)) (match_user k s)
      else match_user k s)"

text \<open>\<^verbatim>\<open>(?:twitter|x)\.com/.{1,15}/(?:web|status(?:es)?)/([0-9]{1,20})\<close> at the start of \<open>s\<close>.\<close>

definition match_tweet_id :: "string \<Rightarrow> (string \<times> string) option" where
  "match_tweet_id s =
     (let rest = (\<lambda>r. Option.bind (strip_prefix ''.com/'' r) (match_user 15))
      in orelse (Option.bind (strip_prefix ''twitter'' s) rest)
           (Option.bind (strip_prefix ''x'' s) rest))"

text \<open>\<^verbatim>\<open>t\.co/[a-zA-Z0-9]+\<close> at the start of \<open>s\<close>; the pattern has no group, so the match itself
  is reported.\<close>

definition match_tco :: "string \<Rightarrow> (string \<times> string) option" where
  "match_tco s =
     (case strip_prefix ''t.co/'' s of
        None \<Rightarrow> None
      | Some r \<Rightarrow>
          (let a = takeWhile is_alnum r
           in if a = [] then None else Some (''t.co/'' @ a, drop (length a) r)))"

text \<open>
  \<open>re.findall\<close>: scan left to right, try the pattern at each position, and after a match
  resume behind it. \<open>skip\<close> counts the characters of the last match still to step over.
  None of the patterns matches the empty string.
\<close>

fun findall_from :: "(string \<Rightarrow> ('a \<times> string) option) \<Rightarrow> nat \<Rightarrow> string \<Rightarrow> 'a list" where
  "findall_from m skip [] = []"
| "findall_from m skip (c # cs) =
     (if 0 < skip then findall_from m (skip - 1) cs
      else (case m (c # cs) of
              None \<Rightarrow> findall_from m 0 cs
            | Some (g, rest) \<Rightarrow> g # findall_from m (length cs - length rest) cs))"

definition findall :: "(string \<Rightarrow> ('a \<times> string) option) \<Rightarrow> string \<Rightarrow> 'a list" where
  "findall m s = findall_from m 0 s"

text \<open>
  \<open>re.match(CORRECT_TWITTER_PATTERN, url)\<close>, the pattern being
  \<^verbatim>\<open>http(?:s)?:\/\/(?:www)?(twitter|x)\.com\/([a-zA-Z0-9_]+)/(status|web)/\d+\<close>,
  anchored at the start of \<open>url\<close> only. \<^verbatim>\<open>\d\<close> is taken as an ASCII digit.
\<close>

definition match_word_run :: "string \<Rightarrow> string option" where
  "match_word_run s =
     (let u = takeWhile is_word s in if u = [] then None else Some (drop (length u) s))"

definition match_digit_run :: "string \<Rightarrow> string option" where
  "match_digit_run s =
     (let d = takeWhile is_digit s in if d = [] then None else Some (drop (length d) s))"

definition correct_twitter_pattern :: "string \<Rightarrow> bool" where
  "correct_twitter_pattern url =
     (let scheme = (\<lambda>s. Option.bind (strip_prefix ''http'' s)
                      (\<lambda>r. orelse (Option.bind (strip_prefix ''s'' r) (strip_prefix ''://''))
                                  (strip_prefix ''://'' r)));
          host = (\<lambda>s. let dom = (\<lambda>r. orelse (strip_prefix ''twitter'' r) (strip_prefix ''x'' r))
                       in Option.bind
                            (orelse (Option.bind (strip_prefix ''www'' s) dom) (dom s))
                            (strip_prefix ''.com/''));
          kind = (\<lambda>s. Option.bind (strip_prefix ''/'' s)
                    (\<lambda>r. Option.bind (orelse (strip_prefix ''status'' r) (strip_prefix ''web'' r))
                          (strip_prefix ''/'')))
      in Option.bind (Option.bind (Option.bind (Option.bind (scheme url) host) match_word_run)
           kind) match_digit_run \<noteq> None)"

section \<open>The outside world\<close>

text \<open>
  The network and the address parser, as far as the source reads them. A request either
  raises or is answered with a status and a payload; the payload keeps what the caller
  reads of the answer. Each field of \<open>env\<close> answers one kind of request, and an answer
  depends on the address only.

  \<^item> \<open>with_query\<close>: the standard library's address parser,
    \<open>urlsplit(url)._replace(query=q).geturl()\<close> for the arguments \<open>url\<close> and \<open>q\<close>: the address
    with its query replaced, as the library writes it out, or the exception \<open>urlsplit\<close>
    raises on an address it does not accept. The library is not part of the repository, so
    it is a parameter here rather than a definition.

  \<^item> \<open>unshorten\<close>: \<open>requests.get(link).url\<close>, the final address after redirects, or \<open>None\<close> when
    the call raises.
  \<^item> \<open>api_get\<close>: the metadata service's reply to \<open>scrape_media\<close>; its body is not JSON, or a
    JSON object with or without the array \<open>media_extended\<close>.
  \<^item> \<open>head\<close>: \<open>requests.head\<close> on a photo address.
  \<^item> \<open>get_stream\<close>: \<open>requests.get(..., stream=True)\<close> on a video address, with what
    \<open>int(request.headers['Content-Length'])\<close> makes of the reply: no such header
    (\<open>KeyError\<close>), a value that is no integer (\<open>ValueError\<close>), or the integer.
  \<^item> \<open>transport\<close>: whether the messaging service accepts a call, \<open>Some err\<close> being the
    exception the call raises.

  A media descriptor is the dictionary the service sends; the source reads its keys
  \<open>type\<close>, \<open>url\<close> and \<open>thumbnail_url\<close>.
\<close>

datatype 'a http =
    Raised py_error
  | Response nat 'a

type_synonym media = "string \<rightharpoonup> string"

datatype api_body =
    NotJson
  | JsonObject "media list option"

datatype content_length =
    NoHeader
  | NotAnInteger
  | Declared int

text \<open>
  The inline results the source builds, with the arguments in this order: photo
  (\<open>photo_url\<close>, \<open>thumbnail_url\<close>), GIF (\<open>thumbnail_url\<close>, \<open>gif_url\<close>), video (\<open>thumbnail_url\<close>,
  \<open>video_url\<close>, \<open>title\<close>, \<open>mime_type\<close>), article (\<open>title\<close>, text of the
  \<open>input_message_content\<close>). The \<open>id\<close>, a fresh random UUID, is left out.
\<close>

datatype inline_result =
    InlineQueryResultPhoto string string
  | InlineQueryResultGif string string
  | InlineQueryResultVideo string string string string
  | InlineQueryResultArticle string string

text \<open>
  The calls to the messaging service: \<open>reply_text\<close>, \<open>reply_video\<close>, \<open>reply_animation\<close>,
  \<open>reply_media_group\<close> (the addresses of the documents), \<open>delete\<close> of the command message, and
  \<open>inline_query.answer\<close>.
\<close>

datatype outgoing =
    ReplyText string
  | ReplyVideo string
  | ReplyAnimation string
  | ReplyMediaGroup "string list"
  | DeleteMessage
  | AnswerInline "inline_result list"

record env =
  with_query :: "string \<Rightarrow> string \<Rightarrow> py_error + string"
  unshorten :: "string \<Rightarrow> string option"
  api_get :: "string \<Rightarrow> api_body http"
  head :: "string \<Rightarrow> unit http"
  get_stream :: "string \<Rightarrow> content_length http"
  transport :: "outgoing \<Rightarrow> py_error option"

section \<open>Identifier extraction\<close>

text \<open>
  \<open>dict.fromkeys(ids)\<close> inserts the keys one by one; a key already present keeps its place.
  \<open>list\<close> then reads the keys in insertion order. The dictionary is modelled by its list of
  keys in insertion order.
\<close>

definition fromkeys :: "'a list \<Rightarrow> 'a list" where
  "fromkeys ks = foldl (\<lambda>d k. if k \<in> set d then d else d @ [k]) [] ks"

text \<open>
  The loop over the \<open>t.co\<close> links: each resolved address is appended behind a newline, a
  link whose request raises is skipped (the bare \<open>except\<close>).
\<close>

fun unshortened_links :: "env \<Rightarrow> string list \<Rightarrow> string" where
  "unshortened_links e [] = []"
| "unshortened_links e (l # ls) =
     (case unshorten e (''https://'' @ l) of
        None \<Rightarrow> unshortened_links e ls
      | Some u \<Rightarrow> newline # u @ unshortened_links e ls)"

text \<open>
  \<open>extract_tweet_ids\<close>: the identifiers are searched in the text followed by the resolved
  links. Its \<open>update\<close> argument only feeds the log and is left out, as is logging everywhere.
\<close>

definition searched_text :: "env \<Rightarrow> string \<Rightarrow> string" where
  "searched_text e text = text @ unshortened_links e (findall match_tco text)"

definition extract_tweet_ids :: "env \<Rightarrow> string \<Rightarrow> string list option" where
  "extract_tweet_ids e text =
     (let tweet_ids = fromkeys (findall match_tweet_id (searched_text e text))
      in if tweet_ids = [] then None else Some tweet_ids)"

section \<open>Counters and the bot's state\<close>

text \<open>
  \<open>ContextCounters\<close> is the literal type of the three counter names. \<open>context.bot_data\<close> holds
  the counters under the key \<open>'stats'\<close> or does not hold the key yet; \<open>init_stats\<close> is the only
  place that stores it, always with the three counters. The messages the transport has
  accepted are kept beside it, oldest first.
\<close>

datatype counter = commands_handled | messages_handled | media_downloaded

type_synonym stats = "counter \<Rightarrow> int"

record bot =
  bot_stats :: "stats option"
  sent :: "outgoing list"

definition init_stats :: "bot \<Rightarrow> bot" where
  "init_stats b = b\<lparr>bot_stats := Some (\<lambda>c. 0)\<rparr>"

definition increase_context_counter :: "bot \<Rightarrow> counter \<Rightarrow> bot" where
  "increase_context_counter b counter_name =
     (let b1 = (if bot_stats b = None then init_stats b else b)
      in b1\<lparr>bot_stats := map_option (\<lambda>st. st(counter_name := st counter_name + 1)) (bot_stats b1)\<rparr>)"

text \<open>An awaited call of the transport: the message is delivered or the call raises.\<close>

definition send :: "env \<Rightarrow> bot \<Rightarrow> outgoing \<Rightarrow> (py_error + unit) \<times> bot" where
  "send e b m =
     (case transport e m of
        None \<Rightarrow> (Inr (), b\<lparr>sent := sent b @ [m]\<rparr>)
      | Some err \<Rightarrow> (Inl err, b))"

text \<open>
  An update is a chat message (commands) or an inline query. Only the former has an
  \<open>effective_message\<close>; for an inline query the attribute is \<open>None\<close>.
\<close>

datatype update = MessageUpdate | InlineQueryUpdate

fun effective_message :: "update \<Rightarrow> bool" where
  "effective_message MessageUpdate = True"
| "effective_message InlineQueryUpdate = False"

section \<open>Metadata fetch and classification\<close>

text \<open>\<open>Response.raise_for_status()\<close> raises \<open>HTTPError\<close> for the statuses 400 to 599.\<close>

definition raises_for_status :: "nat \<Rightarrow> bool" where
  "raises_for_status st = (400 \<le> st \<and> st < 600)"

definition scrape_media :: "env \<Rightarrow> string \<Rightarrow> py_error + media list" where
  "scrape_media e tweet_id =
     (case api_get e (''https://api.vxtwitter.com/Twitter/status/'' @ tweet_id) of
        Raised err \<Rightarrow> Inl err
      | Response st body \<Rightarrow>
          if raises_for_status st then Inl HTTPError
          else (case body of
                  NotJson \<Rightarrow> Inl ValueError
                | JsonObject None \<Rightarrow> Inl KeyError
                | JsonObject (Some ms) \<Rightarrow> Inr ms))"

text \<open>
  One list comprehension of \<open>get_media\<close>: \<open>[media for media in tweet_media if
  media["type"] == t]\<close>. The subscript raises \<open>KeyError\<close> on a descriptor without the key.
\<close>

fun of_type :: "string \<Rightarrow> media list \<Rightarrow> py_error + media list" where
  "of_type t [] = Inr []"
| "of_type t (m # ms) =
     (case m ''type'' of
        None \<Rightarrow> Inl KeyError
      | Some ty \<Rightarrow>
          (case of_type t ms of
             Inl err \<Rightarrow> Inl err
           | Inr r \<Rightarrow> Inr (if ty = t then m # r else r)))"

definition get_media :: "media list \<Rightarrow> py_error + (media list \<times> media list \<times> media list)" where
  "get_media tweet_media =
     (case of_type ''image'' tweet_media of
        Inl err \<Rightarrow> Inl err
      | Inr photos \<Rightarrow>
          (case of_type ''gif'' tweet_media of
             Inl err \<Rightarrow> Inl err
           | Inr gifs \<Rightarrow>
               (case of_type ''video'' tweet_media of
                  Inl err \<Rightarrow> Inl err
                | Inr videos \<Rightarrow> Inr (photos, gifs, videos))))"

section \<open>Photo quality upgrade\<close>

text \<open>
  \<open>get_photo_url\<close>. \<open>urlsplit(url)\<close> stands before the \<open>try\<close>, so an exception of the parser
  leaves the function. In the \<open>try\<close>, the address with the query \<open>format=jpg&name=orig\<close> is
  probed with \<open>requests.head\<close>. Only \<open>requests.HTTPError\<close>, which \<open>raise_for_status\<close> raises, is
  caught; any other exception of the probe leaves the function too.
\<close>

definition get_photo_url :: "env \<Rightarrow> string \<Rightarrow> py_error + string" where
  "get_photo_url e url =
     (case with_query e url ''format=jpg&name=orig'' of
        Inl err \<Rightarrow> Inl err
      | Inr new_url \<Rightarrow>
          (case head e new_url of
             Raised err \<Rightarrow> (if err = HTTPError then Inr url else Inl err)
           | Response st _ \<Rightarrow> if raises_for_status st then Inr url else Inr new_url))"

section \<open>Size-gated video delivery\<close>

text \<open>
  The three statements both video loops share: the streaming \<open>GET\<close>, \<open>raise_for_status\<close> and
  \<open>int(request.headers['Content-Length'])\<close>.
\<close>

definition probe_size :: "env \<Rightarrow> string \<Rightarrow> py_error + int" where
  "probe_size e video_url =
     (case get_stream e video_url of
        Raised err \<Rightarrow> Inl err
      | Response st cl \<Rightarrow>
          if raises_for_status st then Inl HTTPError
          else (case cl of
                  NoHeader \<Rightarrow> Inl KeyError
                | NotAnInteger \<Rightarrow> Inl ValueError
                | Declared n \<Rightarrow> Inr n))"

text \<open>
  \<open>except (requests.HTTPError, KeyError, telegram.error.BadRequest,
  requests.exceptions.ConnectionError)\<close>
\<close>

definition caught :: "py_error \<Rightarrow> bool" where
  "caught err = (err \<in> {HTTPError, KeyError, BadRequest, ConnectionError})"

definition too_large_text :: "string \<Rightarrow> string" where
  "too_large_text video_url =
     ''Video is too large for Telegram upload. Link:'' @ [newline] @ video_url"

definition direct_link_text :: "string \<Rightarrow> string" where
  "direct_link_text video_url =
     ''Error occurred when trying to send video. Direct link:'' @ [newline] @ video_url"

subsection \<open>Inline results\<close>

text \<open>
  The \<open>try\<close> block of \<open>get_videos\<close> for one video: the inline result it appends, or the
  exception it raises. The random \<open>id\<close> of an inline result is left out.
\<close>

definition get_videos_try :: "env \<Rightarrow> media \<Rightarrow> string \<Rightarrow> py_error + inline_result" where
  "get_videos_try e video video_url =
     (case probe_size e video_url of
        Inl err \<Rightarrow> Inl err
      | Inr video_size \<Rightarrow>
          if video_size \<le> 20 * 1024 * 1024
          then (case video ''thumbnail_url'' of
                  None \<Rightarrow> Inl KeyError
                | Some thumb \<Rightarrow> Inr (InlineQueryResultVideo thumb video_url ''Video'' ''video/mp4''))
          else Inr (InlineQueryResultArticle ''Video too big!'' ''Video too big''))"

text \<open>
  One pass of the loop of \<open>get_videos\<close>. The handler of the \<open>except\<close> clause evaluates
  \<open>update.effective_message.reply_text(...)\<close> in a function that is not a coroutine: without
  an \<open>effective_message\<close> the attribute access raises \<open>AttributeError\<close>, with one the coroutine
  is created and never awaited, so nothing is sent.
\<close>

definition get_videos_step ::
  "env \<Rightarrow> update \<Rightarrow> bot \<Rightarrow> media \<Rightarrow> (py_error + inline_result list) \<times> bot" where
  "get_videos_step e u b video =
     (case video ''url'' of
        None \<Rightarrow> (Inl KeyError, b)
      | Some video_url \<Rightarrow>
          (case get_videos_try e video video_url of
             Inr item \<Rightarrow> (Inr [item], increase_context_counter b media_downloaded)
           | Inl err \<Rightarrow>
               if caught err
               then (if effective_message u
                     then (Inr [], increase_context_counter b media_downloaded)
                     else (Inl AttributeError, b))
               else (Inl err, b)))"

fun get_videos ::
  "env \<Rightarrow> update \<Rightarrow> bot \<Rightarrow> media list \<Rightarrow> (py_error + inline_result list) \<times> bot" where
  "get_videos e u b [] = (Inr [], b)"
| "get_videos e u b (video # vs) =
     (case get_videos_step e u b video of
        (Inl err, b1) \<Rightarrow> (Inl err, b1)
      | (Inr items, b1) \<Rightarrow>
          (case get_videos e u b1 vs of
             (Inl err, b2) \<Rightarrow> (Inl err, b2)
           | (Inr rest, b2) \<Rightarrow> (Inr (items @ rest), b2)))"

fun get_photos ::
  "env \<Rightarrow> update \<Rightarrow> bot \<Rightarrow> media list \<Rightarrow> (py_error + inline_result list) \<times> bot" where
  "get_photos e u b [] = (Inr [], b)"
| "get_photos e u b (photo # ps) =
     (case photo ''url'' of
        None \<Rightarrow> (Inl KeyError, b)
      | Some photo_url \<Rightarrow>
          (case get_photo_url e photo_url of
             Inl err \<Rightarrow> (Inl err, b)
           | Inr final_url \<Rightarrow>
               (case get_photos e u (increase_context_counter b media_downloaded) ps of
                  (Inl err, b2) \<Rightarrow> (Inl err, b2)
                | (Inr rest, b2) \<Rightarrow>
                    (Inr (InlineQueryResultPhoto final_url final_url # rest), b2))))"

fun get_gifs ::
  "env \<Rightarrow> update \<Rightarrow> bot \<Rightarrow> media list \<Rightarrow> (py_error + inline_result list) \<times> bot" where
  "get_gifs e u b [] = (Inr [], b)"
| "get_gifs e u b (gif # gs) =
     (case gif ''url'' of
        None \<Rightarrow> (Inl KeyError, b)
      | Some gif_url \<Rightarrow>
          (case gif ''thumbnail_url'' of
             None \<Rightarrow> (Inl KeyError, b)
           | Some thumb \<Rightarrow>
               (case get_gifs e u (increase_context_counter b media_downloaded) gs of
                  (Inl err, b2) \<Rightarrow> (Inl err, b2)
                | (Inr rest, b2) \<Rightarrow> (Inr (InlineQueryResultGif thumb gif_url # rest), b2))))"

definition get_media_for_inline ::
  "env \<Rightarrow> update \<Rightarrow> bot \<Rightarrow> media list \<Rightarrow> (py_error + inline_result list) \<times> bot" where
  "get_media_for_inline e u b tweet_media =
     (case get_media tweet_media of
        Inl err \<Rightarrow> (Inl err, b)
      | Inr (photos, gifs, videos) \<Rightarrow>
          if photos \<noteq> [] then get_photos e u b photos
          else if gifs \<noteq> [] then get_gifs e u b gifs
          else if videos \<noteq> [] then get_videos e u b videos
          else (Inr [], b))"

subsection \<open>Command replies\<close>

text \<open>The \<open>try\<close> block of \<open>command_send_videos\<close> for one video.\<close>

definition command_send_videos_try :: "env \<Rightarrow> bot \<Rightarrow> string \<Rightarrow> (py_error + unit) \<times> bot" where
  "command_send_videos_try e b video_url =
     (case probe_size e video_url of
        Inl err \<Rightarrow> (Inl err, b)
      | Inr video_size \<Rightarrow>
          if video_size \<le> 20 * 1024 * 1024
          then send e b (ReplyVideo video_url)
          else send e b (ReplyText (too_large_text video_url)))"

text \<open>One pass of the loop of \<open>command_send_videos\<close>.\<close>

definition command_send_videos_step :: "env \<Rightarrow> bot \<Rightarrow> media \<Rightarrow> (py_error + unit) \<times> bot" where
  "command_send_videos_step e b video =
     (case video ''url'' of
        None \<Rightarrow> (Inl KeyError, b)
      | Some video_url \<Rightarrow>
          (case command_send_videos_try e b video_url of
             (Inr _, b1) \<Rightarrow> (Inr (), increase_context_counter b1 media_downloaded)
           | (Inl err, b1) \<Rightarrow>
               if caught err
               then (case send e b1 (ReplyText (direct_link_text video_url)) of
                       (Inl err2, b2) \<Rightarrow> (Inl err2, b2)
                     | (Inr _, b2) \<Rightarrow> (Inr (), increase_context_counter b2 media_downloaded))
               else (Inl err, b1)))"

fun command_send_videos :: "env \<Rightarrow> bot \<Rightarrow> media list \<Rightarrow> (py_error + unit) \<times> bot" where
  "command_send_videos e b [] = (Inr (), b)"
| "command_send_videos e b (video # vs) =
     (case command_send_videos_step e b video of
        (Inl err, b1) \<Rightarrow> (Inl err, b1)
      | (Inr _, b1) \<Rightarrow> command_send_videos e b1 vs)"

fun command_send_gifs :: "env \<Rightarrow> bot \<Rightarrow> media list \<Rightarrow> (py_error + unit) \<times> bot" where
  "command_send_gifs e b [] = (Inr (), b)"
| "command_send_gifs e b (gif # gs) =
     (case gif ''url'' of
        None \<Rightarrow> (Inl KeyError, b)
      | Some gif_url \<Rightarrow>
          (case send e (increase_context_counter b media_downloaded) (ReplyAnimation gif_url) of
             (Inl err, b1) \<Rightarrow> (Inl err, b1)
           | (Inr _, b1) \<Rightarrow> command_send_gifs e b1 gs))"

text \<open>The loop of \<open>command_send_photos\<close>, which fills \<open>photo_group\<close>.\<close>

fun photo_group :: "env \<Rightarrow> bot \<Rightarrow> media list \<Rightarrow> (py_error + string list) \<times> bot" where
  "photo_group e b [] = (Inr [], b)"
| "photo_group e b (p # ps) =
     (case p ''url'' of
        None \<Rightarrow> (Inl KeyError, b)
      | Some photo_url \<Rightarrow>
          (case get_photo_url e photo_url of
             Inl err \<Rightarrow> (Inl err, b)
           | Inr final_url \<Rightarrow>
               (case photo_group e (increase_context_counter b media_downloaded) ps of
                  (Inl err, b2) \<Rightarrow> (Inl err, b2)
                | (Inr rest, b2) \<Rightarrow> (Inr (final_url # rest), b2))))"

definition command_send_photos :: "env \<Rightarrow> bot \<Rightarrow> media list \<Rightarrow> (py_error + unit) \<times> bot" where
  "command_send_photos e b photos =
     (case photo_group e b photos of
        (Inl err, b1) \<Rightarrow> (Inl err, b1)
      | (Inr documents, b1) \<Rightarrow> send e b1 (ReplyMediaGroup documents))"

section \<open>The handlers\<close>

subsection \<open>\<open>/grab\<close>\<close>

text \<open>
  The body of \<open>for tweet_id in tweet_ids\<close> in \<open>grab_command\<close>, iterated. No statement of it
  stands in a \<open>try\<close>, so the first exception ends the loop and the handler.
\<close>

fun grab_loop :: "env \<Rightarrow> bot \<Rightarrow> string list \<Rightarrow> (py_error + unit) \<times> bot" where
  "grab_loop e b [] = (Inr (), b)"
| "grab_loop e b (tweet_id # ids) =
     (case scrape_media e tweet_id of
        Inl err \<Rightarrow> (Inl err, b)
      | Inr media_list \<Rightarrow>
          (case get_media media_list of
             Inl err \<Rightarrow> (Inl err, b)
           | Inr (photos, gifs, videos) \<Rightarrow>
               (case (if photos \<noteq> [] then command_send_photos e b photos else (Inr (), b)) of
                  (Inl err, b1) \<Rightarrow> (Inl err, b1)
                | (Inr _, b1) \<Rightarrow>
                    (case (if gifs \<noteq> [] then command_send_gifs e b1 gifs else (Inr (), b1)) of
                       (Inl err, b2) \<Rightarrow> (Inl err, b2)
                     | (Inr _, b2) \<Rightarrow>
                         (case (if videos \<noteq> [] then command_send_videos e b2 videos
                                else (Inr (), b2)) of
                            (Inl err, b3) \<Rightarrow> (Inl err, b3)
                          | (Inr _, b3) \<Rightarrow> grab_loop e b3 ids)))))"

definition not_valid_text :: string where
  "not_valid_text = ''That's not a valid twitter URL or I couldn't find any media on it''"

text \<open>
  \<open>grab_command\<close> with \<open>url = context.args[0]\<close>. Iterating over \<open>None\<close>, which
  \<open>extract_tweet_ids\<close> returns when it finds no identifier, raises \<open>TypeError\<close>.
\<close>

definition grab_command :: "env \<Rightarrow> bot \<Rightarrow> string \<Rightarrow> (py_error + unit) \<times> bot" where
  "grab_command e b url =
     (if correct_twitter_pattern url
      then (let tweet_ids = extract_tweet_ids e url
            in case (if tweet_ids \<noteq> None then send e b (ReplyText (''tweet: '' @ url))
                     else (Inr (), b)) of
                 (Inl err, b1) \<Rightarrow> (Inl err, b1)
               | (Inr _, b1) \<Rightarrow>
                   (case tweet_ids of
                      None \<Rightarrow> (Inl TypeError, b1)
                    | Some ids \<Rightarrow>
                        (case grab_loop e b1 ids of
                           (Inl err, b2) \<Rightarrow> (Inl err, b2)
                         | (Inr _, b2) \<Rightarrow>
                             (case send e b2 DeleteMessage of
                                (Inl err, b3) \<Rightarrow> (Inl err, b3)
                              | (Inr _, b3) \<Rightarrow>
                                  (Inr (), increase_context_counter b3 commands_handled)))))
      else (case send e b (ReplyText not_valid_text) of
              (Inl err, b1) \<Rightarrow> (Inl err, b1)
            | (Inr _, b1) \<Rightarrow> (Inr (), increase_context_counter b1 commands_handled)))"

subsection \<open>Inline queries\<close>

text \<open>
  The loop of \<open>inline_query\<close>: its body is a \<open>try\<close> with \<open>except Exception\<close>, so an identifier
  whose fetch or resolution raises leaves \<open>results\<close> as it was, and one that resolves assigns
  \<open>results\<close> anew. The loop has no \<open>break\<close>.
\<close>

fun inline_loop ::
  "env \<Rightarrow> bot \<Rightarrow> inline_result list \<Rightarrow> string list \<Rightarrow> inline_result list \<times> bot" where
  "inline_loop e b results [] = (results, b)"
| "inline_loop e b results (tweet_id # ids) =
     (case scrape_media e tweet_id of
        Inl err \<Rightarrow> inline_loop e b results ids
      | Inr media_list \<Rightarrow>
          if media_list \<noteq> []
          then (case get_media_for_inline e InlineQueryUpdate b media_list of
                  (Inl err, b1) \<Rightarrow> inline_loop e b1 results ids
                | (Inr new_results, b1) \<Rightarrow> inline_loop e b1 new_results ids)
          else inline_loop e b results ids)"

definition nothing_found :: inline_result where
  "nothing_found =
     InlineQueryResultArticle ''There's nothing I can get for you there!''
       ''There's nothing I can get for you there!''"

definition inline_query :: "env \<Rightarrow> bot \<Rightarrow> string \<Rightarrow> (py_error + unit) \<times> bot" where
  "inline_query e b query =
     (if query = [] then (Inr (), b)
      else (case extract_tweet_ids e query of
              None \<Rightarrow> (Inl TypeError, b)
            | Some ids \<Rightarrow>
                (case inline_loop e b [] ids of
                   (results, b1) \<Rightarrow>
                     send e (increase_context_counter b1 messages_handled)
                       (AnswerInline (if length results = 0 then results @ [nothing_found]
                                      else results)))))"

section \<open>Notions the statements below use\<close>

text \<open>
  First-appearance order, said directly: the elements at the positions where an element
  occurs for the first time, in the order of these positions.
\<close>

definition first_appearances :: "'a list \<Rightarrow> 'a list" where
  "first_appearances ks =
     map (\<lambda>i. ks ! i) (filter (\<lambda>i. ks ! i \<notin> set (take i ks)) [0..<length ks])"

text \<open>
  What one pass of the loop of \<open>inline_query\<close> assigns to \<open>results\<close> for an identifier:
  \<open>None\<close> when the pass leaves \<open>results\<close> alone (the fetch raises, the descriptor list is
  empty, or the resolution raises), \<open>Some rs\<close> when it assigns \<open>rs\<close>. The counters do not
  influence it, so it is read off a run from the empty state.
\<close>

definition no_bot :: bot where
  "no_bot = \<lparr>bot_stats = None, sent = []\<rparr>"

definition inline_decisions :: "env \<Rightarrow> string \<Rightarrow> inline_result list option" where
  "inline_decisions e tweet_id =
     (case scrape_media e tweet_id of
        Inl err \<Rightarrow> None
      | Inr media_list \<Rightarrow>
          if media_list = [] then None
          else (case fst (get_media_for_inline e InlineQueryUpdate no_bot media_list) of
                  Inl err \<Rightarrow> None
                | Inr rs \<Rightarrow> Some rs))"

text \<open>
  The dispatch rule for inline queries in the specification's words: go through the
  identifiers in order, stop at the first one that yields at least one resolved asset, and
  return its decisions.
\<close>

fun first_yield :: "env \<Rightarrow> string list \<Rightarrow> inline_result list" where
  "first_yield e [] = []"
| "first_yield e (tweet_id # ids) =
     (case inline_decisions e tweet_id of
        None \<Rightarrow> first_yield e ids
      | Some rs \<Rightarrow> if rs \<noteq> [] then rs else first_yield e ids)"

section \<open>Concrete inputs\<close>

definition mk_photo :: "string \<Rightarrow> media" where
  "mk_photo u = [''type'' \<mapsto> ''image'', ''url'' \<mapsto> u]"

definition mk_gif :: "string \<Rightarrow> string \<Rightarrow> media" where
  "mk_gif u t = [''type'' \<mapsto> ''gif'', ''url'' \<mapsto> u, ''thumbnail_url'' \<mapsto> t]"

definition mk_video :: "string \<Rightarrow> string \<Rightarrow> media" where
  "mk_video u t = [''type'' \<mapsto> ''video'', ''url'' \<mapsto> u, ''thumbnail_url'' \<mapsto> t]"

text \<open>
  An environment in which \<open>t.co/abc\<close> redirects to a status of identifier 99, the metadata
  service knows six statuses (1: a photo, 2: another photo, 3: a video of 20 MiB + 1 bytes,
  4: a video of exactly 20 MiB, 5: no media, 6: a reply without \<open>media_extended\<close>) and
  answers 404 for any other, every photo probe succeeds, and the transport accepts every
  message. Its \<open>with_query\<close> is a table of what the library returns for the photo addresses
  of the examples with the query \<open>format=jpg&name=orig\<close>, and of the \<open>ValueError\<close> (invalid
  IPv6 address) it raises on \<open>https://[a.com/p.jpg\<close>; for an address outside the table it
  raises as well, so that no example can rest on an address the table does not list.
\<close>

definition demo_env :: env where
  "demo_env =
     \<lparr>with_query = (\<lambda>url q.
        if q = ''format=jpg&name=orig'' \<and>
           url \<in> {''https://pbs.twimg.com/media/A.jpg'',
                   ''https://pbs.twimg.com/media/A.jpg?format=jpg&name=small''}
        then Inr ''https://pbs.twimg.com/media/A.jpg?format=jpg&name=orig''
        else if q = ''format=jpg&name=orig'' \<and> url = ''https://pbs.twimg.com/media/B.jpg''
        then Inr ''https://pbs.twimg.com/media/B.jpg?format=jpg&name=orig''
        else Inl ValueError),
      unshorten = (\<lambda>u. if u = ''https://t.co/abc''
                       then Some ''https://twitter.com/bob/status/99?s=20'' else None),
      api_get = (\<lambda>u.
        if u = ''https://api.vxtwitter.com/Twitter/status/1''
        then Response 200 (JsonObject (Some [mk_photo ''https://pbs.twimg.com/media/A.jpg'']))
        else if u = ''https://api.vxtwitter.com/Twitter/status/2''
        then Response 200 (JsonObject (Some [mk_photo ''https://pbs.twimg.com/media/B.jpg'']))
        else if u = ''https://api.vxtwitter.com/Twitter/status/3''
        then Response 200 (JsonObject (Some
               [mk_video ''https://video.twimg.com/big.mp4'' ''https://pbs.twimg.com/t3.jpg'']))
        else if u = ''https://api.vxtwitter.com/Twitter/status/4''
        then Response 200 (JsonObject (Some
               [mk_video ''https://video.twimg.com/fit.mp4'' ''https://pbs.twimg.com/t4.jpg'']))
        else if u = ''https://api.vxtwitter.com/Twitter/status/5''
        then Response 200 (JsonObject (Some []))
        else if u = ''https://api.vxtwitter.com/Twitter/status/6''
        then Response 200 (JsonObject None)
        else Response 404 NotJson),
      head = (\<lambda>u. Response 200 ()),
      get_stream = (\<lambda>u.
        if u = ''https://video.twimg.com/big.mp4''
        then Response 200 (Declared (20 * 1024 * 1024 + 1))
        else Response 200 (Declared (20 * 1024 * 1024))),
      transport = (\<lambda>m. None)\<rparr>"



definition some_bot :: bot where
  "some_bot =
     \<lparr>bot_stats = Some (\<lambda>c. if c = media_downloaded then 7 else 3),
      sent = [ReplyText ''earlier'']\<rparr>"

definition mixed_media :: "media list" where
  "mixed_media =
     [mk_video ''v1'' ''t1'', mk_photo ''p1'', mk_gif ''g1'' ''t2'', mk_photo ''p2'',
      mk_video ''v2'' ''t3'']"

definition fit_video :: media where
  "fit_video = mk_video ''https://video.twimg.com/fit.mp4'' ''https://pbs.twimg.com/t4.jpg''"

definition big_video :: media where
  "big_video = mk_video ''https://video.twimg.com/big.mp4'' ''https://pbs.twimg.com/t3.jpg''"

section \<open>Properties of the deduplication\<close>

lemma fromkeys_snoc:
  "fromkeys (ks @ [k]) = (if k \<in> set (fromkeys ks) then fromkeys ks else fromkeys ks @ [k])"
  by (simp add: fromkeys_def)

lemma set_fromkeys: "set (fromkeys ks) = set ks"
  by (induction ks rule: rev_induct) (auto simp: fromkeys_snoc fromkeys_def)

lemma distinct_fromkeys: "distinct (fromkeys ks)"
  by (induction ks rule: rev_induct) (auto simp: fromkeys_snoc fromkeys_def)

lemma fromkeys_Nil_iff: "fromkeys ks = [] \<longleftrightarrow> ks = []"
  using set_fromkeys [of ks] by (metis set_empty)

lemma first_appearances_snoc:
  "first_appearances (ks @ [k]) = first_appearances ks @ (if k \<in> set ks then [] else [k])"
proof -
  let ?P = "\<lambda>i. (ks @ [k]) ! i \<notin> set (take i (ks @ [k]))"
  let ?f = "\<lambda>i. (ks @ [k]) ! i"
  have a: "filter ?P [0..<length ks] = filter (\<lambda>i. ks ! i \<notin> set (take i ks)) [0..<length ks]"
    by (rule filter_cong) (auto simp: nth_append)
  have b: "map ?f (filter (\<lambda>i. ks ! i \<notin> set (take i ks)) [0..<length ks])
         = map (\<lambda>i. ks ! i) (filter (\<lambda>i. ks ! i \<notin> set (take i ks)) [0..<length ks])"
    by (rule map_cong) (auto simp: nth_append)
  have c: "map ?f (filter ?P [length ks]) = (if k \<in> set ks then [] else [k])"
    by simp
  have "first_appearances (ks @ [k]) = map ?f (filter ?P ([0..<length ks] @ [length ks]))"
    unfolding first_appearances_def by simp
  also have "\<dots> = map ?f (filter ?P [0..<length ks]) @ map ?f (filter ?P [length ks])"
    unfolding filter_append map_append ..
  also have "\<dots> = first_appearances ks @ (if k \<in> set ks then [] else [k])"
    unfolding a b c first_appearances_def ..
  finally show ?thesis .
qed

lemma fromkeys_first_appearances: "fromkeys ks = first_appearances ks"
proof (induction ks rule: rev_induct)
  case Nil
  show ?case by (simp add: fromkeys_def first_appearances_def)
next
  case (snoc k ks)
  have "fromkeys (ks @ [k]) = fromkeys ks @ (if k \<in> set ks then [] else [k])"
    by (simp add: fromkeys_snoc set_fromkeys)
  with snoc show ?case
    by (simp only: first_appearances_snoc)
qed

lemma fromkeys_length: "length (fromkeys ks) = card (set ks)"
  using distinct_card [OF distinct_fromkeys, of ks] by (simp add: set_fromkeys)

lemma fromkeys_single: "set ks = {k} \<Longrightarrow> fromkeys ks = [k]"
proof -
  assume h: "set ks = {k}"
  have "length (fromkeys ks) = 1" by (simp add: fromkeys_length h)
  moreover have "set (fromkeys ks) = {k}" by (simp add: set_fromkeys h)
  ultimately show ?thesis
    by (cases "fromkeys ks") auto
qed

section \<open>The counters do not steer the resolution\<close>

lemma get_photos_fst: "fst (get_photos e u b ps) = fst (get_photos e u b' ps)"
proof (induction ps arbitrary: b b')
  case Nil
  show ?case by simp
next
  case (Cons p ps)
  show ?case
    using Cons [of "increase_context_counter b media_downloaded"
                   "increase_context_counter b' media_downloaded"]
    by (auto split: option.splits sum.splits prod.splits)
qed

lemma get_gifs_fst: "fst (get_gifs e u b gs) = fst (get_gifs e u b' gs)"
proof (induction gs arbitrary: b b')
  case Nil
  show ?case by simp
next
  case (Cons g gs)
  show ?case
    using Cons [of "increase_context_counter b media_downloaded"
                   "increase_context_counter b' media_downloaded"]
    by (auto split: option.splits sum.splits prod.splits)
qed

lemma get_videos_step_fst: "fst (get_videos_step e u b v) = fst (get_videos_step e u b' v)"
  by (auto simp: get_videos_step_def split: option.splits sum.splits)

lemma get_videos_fst: "fst (get_videos e u b vs) = fst (get_videos e u b' vs)"
proof (induction vs arbitrary: b b')
  case Nil
  show ?case by simp
next
  case (Cons v vs)
  show ?case
    using get_videos_step_fst [of e u b v b']
      Cons [of "snd (get_videos_step e u b v)" "snd (get_videos_step e u b' v)"]
    by (auto split: sum.splits prod.splits)
qed

lemma get_media_for_inline_fst:
  "fst (get_media_for_inline e u b ms) = fst (get_media_for_inline e u b' ms)"
  using get_photos_fst get_gifs_fst get_videos_fst
  by (auto simp: get_media_for_inline_def split: sum.splits prod.splits)

lemma inline_pass:
  "inline_loop e b results (i # ids) =
     inline_loop e (snd (inline_loop e b results [i]))
       (case inline_decisions e i of None \<Rightarrow> results | Some rs \<Rightarrow> rs) ids"
proof (cases "scrape_media e i")
  case (Inl err)
  then show ?thesis by (simp add: inline_decisions_def)
next
  case (Inr ms)
  show ?thesis
  proof (cases "ms = []")
    case True
    with Inr show ?thesis by (simp add: inline_decisions_def)
  next
    case False
    obtain r b1 where run: "get_media_for_inline e InlineQueryUpdate b ms = (r, b1)"
      by (cases "get_media_for_inline e InlineQueryUpdate b ms")
    have "fst (get_media_for_inline e InlineQueryUpdate no_bot ms) = r"
      using get_media_for_inline_fst [of e InlineQueryUpdate no_bot ms b] run by simp
    with Inr False run show ?thesis
      by (cases r) (simp_all add: inline_decisions_def)
  qed
qed

lemma inline_loop_results:
  "fst (inline_loop e b results ids) =
     foldl (\<lambda>r i. case inline_decisions e i of None \<Rightarrow> r | Some rs \<Rightarrow> rs) results ids"
proof (induction ids arbitrary: b results)
  case Nil
  show ?case by simp
next
  case (Cons i ids)
  show ?case
    by (simp only: inline_pass [of e b results i ids] Cons foldl_Cons)
qed

lemma foldl_keep:
  "\<forall>i\<in>set ids. inline_decisions e i = None \<Longrightarrow>
   foldl (\<lambda>r i. case inline_decisions e i of None \<Rightarrow> r | Some rs \<Rightarrow> rs) results ids = results"
  by (induction ids arbitrary: results) auto

lemma foldl_empty:
  "\<forall>i\<in>set ids. inline_decisions e i = None \<or> inline_decisions e i = Some [] \<Longrightarrow>
   foldl (\<lambda>r i. case inline_decisions e i of None \<Rightarrow> r | Some rs \<Rightarrow> rs) [] ids = []"
  by (induction ids) (auto split: option.splits)

lemma inline_query_answer:
  "query \<noteq> [] \<Longrightarrow> extract_tweet_ids e query = Some ids \<Longrightarrow>
   fst (inline_loop e b [] ids) = rs \<Longrightarrow>
   inline_query e b query =
     send e (increase_context_counter (snd (inline_loop e b [] ids)) messages_handled)
       (AnswerInline (if rs = [] then [nothing_found] else rs))"
  by (auto simp: inline_query_def split: prod.splits)

lemma inline_decisions_fetch_failed:
  "scrape_media e i = Inl err \<Longrightarrow> inline_decisions e i = None"
  by (simp add: inline_decisions_def)

lemma inline_decisions_no_media:
  "scrape_media e i = Inr [] \<Longrightarrow> inline_decisions e i = None"
  by (simp add: inline_decisions_def)

section \<open>The classifier as three filters\<close>

lemma of_type_filter:
  "\<forall>m\<in>set ms. m ''type'' \<noteq> None \<Longrightarrow>
   of_type t ms = Inr (filter (\<lambda>m. m ''type'' = Some t) ms)"
  by (induction ms) auto

lemma get_media_filter:
  "\<forall>m\<in>set ms. m ''type'' \<noteq> None \<Longrightarrow>
   get_media ms =
     Inr (filter (\<lambda>m. m ''type'' = Some ''image'') ms,
          filter (\<lambda>m. m ''type'' = Some ''gif'') ms,
          filter (\<lambda>m. m ''type'' = Some ''video'') ms)"
  by (simp add: get_media_def of_type_filter)

lemma three_way_length:
  "\<forall>m\<in>set ms. m ''type'' \<in> {Some ''image'', Some ''gif'', Some ''video''} \<Longrightarrow>
   length (filter (\<lambda>m. m ''type'' = Some ''image'') ms)
   + length (filter (\<lambda>m. m ''type'' = Some ''gif'') ms)
   + length (filter (\<lambda>m. m ''type'' = Some ''video'') ms) = length ms"
  by (induction ms) auto

section \<open>Edge cases of the handlers\<close>

text \<open>
  What the code does on inputs the statements below leave aside: a descriptor of another
  type is in no bucket, one without a type raises; an empty inline query is not answered;
  without an identifier the command handler raises \<open>TypeError\<close> when it iterates over
  \<open>None\<close>; an address the parser does not accept makes the photo upgrade raise; a video
  probe that fails ends the inline resolution with \<open>AttributeError\<close> and makes the command
  reply a direct link.
\<close>

lemma get_media_other_type:
  "get_media [[''type'' \<mapsto> ''audio'', ''url'' \<mapsto> ''u'']] = Inr ([], [], [])"
  by (simp add: get_media_def)

lemma get_media_without_type:
  "get_media [[''url'' \<mapsto> ''u'']] = Inl KeyError"
  by (simp add: get_media_def)

lemma inline_query_empty: "inline_query e b [] = (Inr (), b)"
  by (simp add: inline_query_def)

lemma grab_command_no_identifier:
  "correct_twitter_pattern url \<Longrightarrow> extract_tweet_ids e url = None \<Longrightarrow>
   grab_command e b url = (Inl TypeError, b)"
  by (simp add: grab_command_def)

lemma get_videos_probe_failure_inline:
  "v ''url'' = Some u \<Longrightarrow> get_stream e u = Raised ConnectionError \<Longrightarrow>
   get_videos_step e InlineQueryUpdate b v = (Inl AttributeError, b)"
  by (simp add: get_videos_step_def get_videos_try_def probe_size_def caught_def)

lemma command_probe_failure_direct_link:
  "v ''url'' = Some u \<Longrightarrow> get_stream e u = Raised ConnectionError \<Longrightarrow>
   transport e (ReplyText (direct_link_text u)) = None \<Longrightarrow>
   command_send_videos_step e b v =
     (Inr (), increase_context_counter (b\<lparr>sent := sent b @ [ReplyText (direct_link_text u)]\<rparr>)
        media_downloaded)"
  by (simp add: command_send_videos_step_def command_send_videos_try_def probe_size_def
      caught_def send_def)

lemma get_photo_url_parser_error:
  "with_query e url ''format=jpg&name=orig'' = Inl err \<Longrightarrow> get_photo_url e url = Inl err"
  by (simp add: get_photo_url_def)

lemma get_photo_url_invalid_address:
  "get_photo_url demo_env ''https://[a.com/p.jpg'' = Inl ValueError"
  by (simp add: get_photo_url_def demo_env_def)

section \<open>The placeholder answer\<close>

text \<open>
  For every non-empty inline query from which identifiers are extracted: when no
  identifier yields a resolved asset (its fetch raises, it has no descriptors, its
  resolution raises, or its resolution yields nothing), the handler answers with the list
  made of the one "nothing found" article; and whatever the identifiers yield, the list it
  answers with is not empty.
\<close>

lemma inline_query_placeholder:
  assumes "query \<noteq> []" and "extract_tweet_ids e query = Some ids"
  shows "((\<forall>i\<in>set ids. (\<exists>err. scrape_media e i = Inl err) \<or> scrape_media e i = Inr []
             \<or> inline_decisions e i = None \<or> inline_decisions e i = Some []) \<longrightarrow>
          inline_query e b query =
            send e (increase_context_counter (snd (inline_loop e b [] ids)) messages_handled)
              (AnswerInline [nothing_found]))
       \<and> (\<exists>rs. rs \<noteq> [] \<and>
            inline_query e b query =
              send e (increase_context_counter (snd (inline_loop e b [] ids)) messages_handled)
                (AnswerInline rs))"
proof -
  have general: "inline_query e b query =
      send e (increase_context_counter (snd (inline_loop e b [] ids)) messages_handled)
        (AnswerInline (if fst (inline_loop e b [] ids) = [] then [nothing_found]
                       else fst (inline_loop e b [] ids)))"
    by (rule inline_query_answer [OF assms(1) assms(2) refl])
  have empty: "fst (inline_loop e b [] ids) = []"
    if h: "\<forall>i\<in>set ids. (\<exists>err. scrape_media e i = Inl err) \<or> scrape_media e i = Inr []
             \<or> inline_decisions e i = None \<or> inline_decisions e i = Some []"
  proof -
    have "\<forall>i\<in>set ids. inline_decisions e i = None \<or> inline_decisions e i = Some []"
      using h inline_decisions_fetch_failed inline_decisions_no_media by blast
    then show ?thesis
      by (simp only: inline_loop_results foldl_empty)
  qed
  have nonempty: "(if fst (inline_loop e b [] ids) = [] then [nothing_found]
                   else fst (inline_loop e b [] ids)) \<noteq> []"
    by simp
  show ?thesis
  proof (intro conjI impI)
    assume "\<forall>i\<in>set ids. (\<exists>err. scrape_media e i = Inl err) \<or> scrape_media e i = Inr []
             \<or> inline_decisions e i = None \<or> inline_decisions e i = Some []"
    from empty [OF this] general
    show "inline_query e b query =
            send e (increase_context_counter (snd (inline_loop e b [] ids)) messages_handled)
              (AnswerInline [nothing_found])"
      by simp
  next
    from general nonempty
    show "\<exists>rs. rs \<noteq> [] \<and>
            inline_query e b query =
              send e (increase_context_counter (snd (inline_loop e b [] ids)) messages_handled)
                (AnswerInline rs)"
      by blast
  qed
qed

lemma inline_query_placeholder_example:
  "extract_tweet_ids demo_env ''https://x.com/a/status/5 twitter.com/b/status/404'' =
     Some [''5'', ''404'']
   \<and> scrape_media demo_env ''5'' = Inr []
   \<and> scrape_media demo_env ''404'' = Inl HTTPError
   \<and> inline_query demo_env no_bot ''https://x.com/a/status/5 twitter.com/b/status/404'' =
       (Inr (), increase_context_counter no_bot messages_handled
                  \<lparr>sent := [AnswerInline [nothing_found]]\<rparr>)"
proof -
  have q: "''https://x.com/a/status/5 twitter.com/b/status/404'' \<noteq> []"
    by simp
  have x: "extract_tweet_ids demo_env ''https://x.com/a/status/5 twitter.com/b/status/404'' =
     Some [''5'', ''404'']"
    by code_simp
  have s5: "scrape_media demo_env ''5'' = Inr []"
    and s404: "scrape_media demo_env ''404'' = Inl HTTPError"
    by (simp_all add: scrape_media_def demo_env_def raises_for_status_def)
  have h: "\<forall>i\<in>set [''5'', ''404''].
      (\<exists>err. scrape_media demo_env i = Inl err) \<or> scrape_media demo_env i = Inr []
      \<or> inline_decisions demo_env i = None \<or> inline_decisions demo_env i = Some []"
    using s5 s404 by simp
  have l: "inline_loop demo_env no_bot [] [''5'', ''404''] = ([], no_bot)"
    using s5 s404 by simp
  have tr: "transport demo_env = (\<lambda>m. None)"
    by (simp add: demo_env_def)
  have "inline_query demo_env no_bot ''https://x.com/a/status/5 twitter.com/b/status/404'' =
      send demo_env
        (increase_context_counter (snd (inline_loop demo_env no_bot [] [''5'', ''404'']))
           messages_handled)
        (AnswerInline [nothing_found])"
    using inline_query_placeholder [OF q x, of no_bot] h by blast
  then show ?thesis
    using x s5 s404
    by (simp add: l send_def tr increase_context_counter_def init_stats_def no_bot_def)
qed

section \<open>The claims\<close>

text \<open>
  C10. Every counter increment touches exactly one counter: whatever the stored counters
  are, \<open>increase_context_counter\<close> raises the named counter by exactly 1 and leaves the other
  two as they were; when no counters are stored yet, all three start at zero, so the named
  one ends at 1 and the others at 0. The messages sent are not touched.
\<close>

theorem increase_context_counter_touches_one:
  "(\<forall>st. bot_stats b = Some st \<longrightarrow>
      (\<exists>st'. bot_stats (increase_context_counter b n) = Some st' \<and> st' n = st n + 1 \<and>
         (\<forall>c. c \<noteq> n \<longrightarrow> st' c = st c)))
   \<and> (bot_stats b = None \<longrightarrow>
      (\<exists>st'. bot_stats (increase_context_counter b n) = Some st' \<and> st' n = 1 \<and>
         (\<forall>c. c \<noteq> n \<longrightarrow> st' c = 0)))
   \<and> sent (increase_context_counter b n) = sent b"
  by (auto simp: increase_context_counter_def init_stats_def)

theorem increase_context_counter_touches_one_witness:
  "(\<exists>st'. bot_stats (increase_context_counter some_bot media_downloaded) = Some st' \<and>
      st' media_downloaded = 8 \<and> st' commands_handled = 3 \<and> st' messages_handled = 3)
   \<and> (\<exists>st'. bot_stats (increase_context_counter no_bot commands_handled) = Some st' \<and>
      st' commands_handled = 1 \<and> st' messages_handled = 0 \<and> st' media_downloaded = 0)"
proof -
  have a: "bot_stats some_bot = Some (\<lambda>c. if c = media_downloaded then 7 else 3)"
    by (simp add: some_bot_def)
  have b: "bot_stats no_bot = None"
    by (simp add: no_bot_def)
  from increase_context_counter_touches_one [of some_bot media_downloaded] a
  obtain s1 where s1: "bot_stats (increase_context_counter some_bot media_downloaded) = Some s1"
    "s1 media_downloaded = 8" "\<forall>c. c \<noteq> media_downloaded \<longrightarrow> s1 c = 3"
    by auto
  from increase_context_counter_touches_one [of no_bot commands_handled] b
  obtain s2 where s2: "bot_stats (increase_context_counter no_bot commands_handled) = Some s2"
    "s2 commands_handled = 1" "\<forall>c. c \<noteq> commands_handled \<longrightarrow> s2 c = 0"
    by auto
  from s1 s2 show ?thesis by auto
qed

text \<open>
  C8. For every text in which the search finds no status link, the extractor returns \<open>None\<close>;
  it never returns an empty list.
\<close>

theorem extract_tweet_ids_none_not_empty:
  "(findall match_tweet_id (searched_text e text) = [] \<longrightarrow> extract_tweet_ids e text = None)
   \<and> extract_tweet_ids e text \<noteq> Some []"
  by (simp add: extract_tweet_ids_def fromkeys_Nil_iff Let_def)

theorem extract_tweet_ids_none_not_empty_witness:
  "findall match_tweet_id (searched_text demo_env ''no status here, see t.co/zzz'') = []
   \<and> extract_tweet_ids demo_env ''no status here, see t.co/zzz'' = None"
proof -
  have f: "findall match_tweet_id (searched_text demo_env ''no status here, see t.co/zzz'') = []"
    by code_simp
  with extract_tweet_ids_none_not_empty [of demo_env "''no status here, see t.co/zzz''"]
  show ?thesis by simp
qed

text \<open>
  C7. The extractor removes repeats and keeps first-seen order: when the search finds the
  identifiers \<open>found\<close> (repeats included) in the text and the resolved short links, the result
  is the list of their first appearances, it has no repeats, it holds exactly the distinct
  identifiers found, as many as there are, and a text in which one identifier is found any
  number of times yields the list of that one identifier.
\<close>

theorem extract_tweet_ids_first_seen:
  assumes "findall match_tweet_id (searched_text e text) = found" and "found \<noteq> []"
  shows "extract_tweet_ids e text = Some (first_appearances found)
       \<and> distinct (first_appearances found)
       \<and> set (first_appearances found) = set found
       \<and> length (first_appearances found) = card (set found)
       \<and> (\<forall>k. set found = {k} \<longrightarrow> extract_tweet_ids e text = Some [k])"
proof -
  have x: "extract_tweet_ids e text = Some (fromkeys found)"
    using assms by (simp add: extract_tweet_ids_def fromkeys_Nil_iff)
  show ?thesis
    using x distinct_fromkeys [of found] set_fromkeys [of found] fromkeys_length [of found]
      fromkeys_single [of found]
    by (simp add: fromkeys_first_appearances [symmetric])
qed

theorem extract_tweet_ids_first_seen_witness:
  "extract_tweet_ids demo_env
     ''x.com/a/status/5 t.co/abc x.com/b/status/5 x.com/c/web/4 twitter.com/d/statuses/99''
     = Some [''5'', ''4'', ''99'']
   \<and> extract_tweet_ids demo_env ''x.com/a/status/7 and again x.com/a/status/7'' = Some [''7'']
   \<and> extract_tweet_ids demo_env ''check https://x.com/alice/status/123456'' = Some [''123456'']"
proof -
  have f: "findall match_tweet_id (searched_text demo_env
     ''x.com/a/status/5 t.co/abc x.com/b/status/5 x.com/c/web/4 twitter.com/d/statuses/99'')
     = [''5'', ''5'', ''4'', ''99'', ''99'']"
    by code_simp
  have fa: "first_appearances [''5'', ''5'', ''4'', ''99'', ''99''] = [''5'', ''4'', ''99'']"
    by code_simp
  have g: "findall match_tweet_id
     (searched_text demo_env ''x.com/a/status/7 and again x.com/a/status/7'') = [''7'', ''7'']"
    by code_simp
  have "extract_tweet_ids demo_env
     ''x.com/a/status/5 t.co/abc x.com/b/status/5 x.com/c/web/4 twitter.com/d/statuses/99''
     = Some [''5'', ''4'', ''99'']"
    using extract_tweet_ids_first_seen [OF f] fa by simp
  moreover have "extract_tweet_ids demo_env ''x.com/a/status/7 and again x.com/a/status/7''
     = Some [''7'']"
  proof -
    have n: "[''7'', ''7''] \<noteq> ([] :: string list)" by simp
    have "set [''7'', ''7''] = {''7''} \<longrightarrow>
      extract_tweet_ids demo_env ''x.com/a/status/7 and again x.com/a/status/7'' = Some [''7'']"
      using extract_tweet_ids_first_seen [OF g n] by blast
    then show ?thesis by simp
  qed
  moreover have "extract_tweet_ids demo_env ''check https://x.com/alice/status/123456''
     = Some [''123456'']"
    by code_simp
  ultimately show ?thesis by simp
qed

text \<open>
  C6. The classifier is a pure, total, order-preserving three-way partition of a list of
  well-typed descriptors. \<open>get_media\<close> takes the descriptor list and nothing else. For every
  list whose descriptors carry one of the three types the service uses (\<open>image\<close>, \<open>gif\<close>,
  \<open>video\<close>) it returns three buckets, each the sublist of the descriptors of its type in
  source order; the sizes of the buckets add up to the length of the list, and every
  descriptor of the list is in exactly one bucket.
\<close>

theorem get_media_partition:
  assumes "\<forall>m\<in>set ms. m ''type'' \<in> {Some ''image'', Some ''gif'', Some ''video''}"
  shows "\<exists>photos gifs videos.
           get_media ms = Inr (photos, gifs, videos)
         \<and> photos = filter (\<lambda>m. m ''type'' = Some ''image'') ms
         \<and> gifs = filter (\<lambda>m. m ''type'' = Some ''gif'') ms
         \<and> videos = filter (\<lambda>m. m ''type'' = Some ''video'') ms
         \<and> length photos + length gifs + length videos = length ms
         \<and> (\<forall>m\<in>set ms.
               (m \<in> set photos \<and> m \<notin> set gifs \<and> m \<notin> set videos)
             \<or> (m \<notin> set photos \<and> m \<in> set gifs \<and> m \<notin> set videos)
             \<or> (m \<notin> set photos \<and> m \<notin> set gifs \<and> m \<in> set videos))"
proof -
  have typed: "\<forall>m\<in>set ms. m ''type'' \<noteq> None"
    using assms by auto
  have one: "\<forall>m\<in>set ms.
      (m \<in> set (filter (\<lambda>m. m ''type'' = Some ''image'') ms)
         \<and> m \<notin> set (filter (\<lambda>m. m ''type'' = Some ''gif'') ms)
         \<and> m \<notin> set (filter (\<lambda>m. m ''type'' = Some ''video'') ms))
    \<or> (m \<notin> set (filter (\<lambda>m. m ''type'' = Some ''image'') ms)
         \<and> m \<in> set (filter (\<lambda>m. m ''type'' = Some ''gif'') ms)
         \<and> m \<notin> set (filter (\<lambda>m. m ''type'' = Some ''video'') ms))
    \<or> (m \<notin> set (filter (\<lambda>m. m ''type'' = Some ''image'') ms)
         \<and> m \<notin> set (filter (\<lambda>m. m ''type'' = Some ''gif'') ms)
         \<and> m \<in> set (filter (\<lambda>m. m ''type'' = Some ''video'') ms))"
    using assms by auto
  show ?thesis
    using get_media_filter [OF typed] three_way_length [OF assms] one by simp
qed

theorem get_media_partition_witness:
  "get_media mixed_media =
     Inr ([mk_photo ''p1'', mk_photo ''p2''], [mk_gif ''g1'' ''t2''],
          [mk_video ''v1'' ''t1'', mk_video ''v2'' ''t3''])"
proof -
  have h: "\<forall>m\<in>set mixed_media. m ''type'' \<in> {Some ''image'', Some ''gif'', Some ''video''}"
    by (simp add: mixed_media_def mk_photo_def mk_gif_def mk_video_def)
  from get_media_partition [OF h]
  have "get_media mixed_media =
     Inr (filter (\<lambda>m. m ''type'' = Some ''image'') mixed_media,
          filter (\<lambda>m. m ''type'' = Some ''gif'') mixed_media,
          filter (\<lambda>m. m ''type'' = Some ''video'') mixed_media)"
    by blast
  then show ?thesis
    by (simp add: mixed_media_def mk_photo_def mk_gif_def mk_video_def)
qed




text \<open>
  C3. What the two video loops do on either side of the size gate. For every video
  descriptor with an address and a thumbnail whose size probe is answered with a declared
  content length \<open>n\<close>: when \<open>n\<close> is at most 20 * 1024 * 1024, so also when it is exactly that,
  the inline loop appends the video itself as an inline video result and the command loop
  calls \<open>reply_video\<close> with the address (and, the transport accepting it, sends just that).
  When \<open>n\<close> is 20 * 1024 * 1024 + 1 or more, the command loop replies with the text
  \<open>Video is too large for Telegram upload. Link:\<close>, a newline and the address, a direct link;
  the inline loop appends the article \<open>Video too big!\<close> with the text \<open>Video too big\<close>, in which
  the address does not occur, so the inline result is no direct link.
\<close>

theorem video_size_gate_inclusive:
  assumes "v ''url'' = Some u" and "v ''thumbnail_url'' = Some t"
    and "get_stream e u = Response st (Declared n)" and "\<not> raises_for_status st"
  shows "(n \<le> 20 * 1024 * 1024 \<longrightarrow>
            get_videos_step e upd b v =
              (Inr [InlineQueryResultVideo t u ''Video'' ''video/mp4''],
               increase_context_counter b media_downloaded)
          \<and> command_send_videos_try e b u = send e b (ReplyVideo u)
          \<and> (transport e (ReplyVideo u) = None \<longrightarrow>
                command_send_videos_step e b v =
                  (Inr (), increase_context_counter (b\<lparr>sent := sent b @ [ReplyVideo u]\<rparr>)
                     media_downloaded)))
       \<and> (20 * 1024 * 1024 + 1 \<le> n \<longrightarrow>
            get_videos_step e upd b v =
              (Inr [InlineQueryResultArticle ''Video too big!'' ''Video too big''],
               increase_context_counter b media_downloaded)
          \<and> command_send_videos_try e b u =
              send e b
                (ReplyText (''Video is too large for Telegram upload. Link:'' @ CHR 0x0A # u))
          \<and> (transport e
                 (ReplyText (''Video is too large for Telegram upload. Link:'' @ CHR 0x0A # u))
               = None \<longrightarrow>
                command_send_videos_step e b v =
                  (Inr (), increase_context_counter
                     (b\<lparr>sent := sent b @
                        [ReplyText
                           (''Video is too large for Telegram upload. Link:'' @ CHR 0x0A # u)]\<rparr>)
                     media_downloaded)))"
  using assms
  by (simp add: get_videos_step_def get_videos_try_def command_send_videos_try_def
      command_send_videos_step_def probe_size_def send_def too_large_text_def newline_def)

theorem video_size_gate_inclusive_witness:
  "get_stream demo_env ''https://video.twimg.com/fit.mp4'' = Response 200 (Declared 20971520)
   \<and> get_videos_step demo_env InlineQueryUpdate no_bot fit_video =
       (Inr [InlineQueryResultVideo ''https://pbs.twimg.com/t4.jpg''
               ''https://video.twimg.com/fit.mp4'' ''Video'' ''video/mp4''],
        increase_context_counter no_bot media_downloaded)
   \<and> command_send_videos_step demo_env no_bot fit_video =
       (Inr (), increase_context_counter
          (no_bot\<lparr>sent := [ReplyVideo ''https://video.twimg.com/fit.mp4'']\<rparr>) media_downloaded)
   \<and> get_stream demo_env ''https://video.twimg.com/big.mp4'' = Response 200 (Declared 20971521)
   \<and> get_videos_step demo_env InlineQueryUpdate no_bot big_video =
       (Inr [InlineQueryResultArticle ''Video too big!'' ''Video too big''],
        increase_context_counter no_bot media_downloaded)
   \<and> command_send_videos_step demo_env no_bot big_video =
       (Inr (), increase_context_counter
          (no_bot\<lparr>sent :=
             [ReplyText (''Video is too large for Telegram upload. Link:'' @ CHR 0x0A #
                ''https://video.twimg.com/big.mp4'')]\<rparr>)
          media_downloaded)
   \<and> sent (snd (inline_query demo_env no_bot ''https://x.com/a/status/4'')) =
       [AnswerInline
          [InlineQueryResultVideo ''https://pbs.twimg.com/t4.jpg''
             ''https://video.twimg.com/fit.mp4'' ''Video'' ''video/mp4'']]
   \<and> sent (snd (inline_query demo_env no_bot ''https://x.com/a/status/3'')) =
       [AnswerInline [InlineQueryResultArticle ''Video too big!'' ''Video too big'']]"
proof -
  have i4: "sent (snd (inline_query demo_env no_bot ''https://x.com/a/status/4'')) =
       [AnswerInline
          [InlineQueryResultVideo ''https://pbs.twimg.com/t4.jpg''
             ''https://video.twimg.com/fit.mp4'' ''Video'' ''video/mp4'']]"
    by code_simp
  have i3: "sent (snd (inline_query demo_env no_bot ''https://x.com/a/status/3'')) =
       [AnswerInline [InlineQueryResultArticle ''Video too big!'' ''Video too big'']]"
    by code_simp
  have f1: "fit_video ''url'' = Some ''https://video.twimg.com/fit.mp4''"
    and f2: "fit_video ''thumbnail_url'' = Some ''https://pbs.twimg.com/t4.jpg''"
    by (simp_all add: fit_video_def mk_video_def)
  have f3: "get_stream demo_env ''https://video.twimg.com/fit.mp4'' = Response 200 (Declared 20971520)"
    by (simp add: demo_env_def)
  have g1: "big_video ''url'' = Some ''https://video.twimg.com/big.mp4''"
    and g2: "big_video ''thumbnail_url'' = Some ''https://pbs.twimg.com/t3.jpg''"
    by (simp_all add: big_video_def mk_video_def)
  have g3: "get_stream demo_env ''https://video.twimg.com/big.mp4'' = Response 200 (Declared 20971521)"
    by (simp add: demo_env_def)
  have ok: "\<not> raises_for_status 200"
    by (simp add: raises_for_status_def)
  have tr: "transport demo_env = (\<lambda>m. None)"
    by (simp add: demo_env_def)
  show ?thesis
    using video_size_gate_inclusive
        [where v = fit_video and upd = InlineQueryUpdate and b = no_bot, OF f1 f2 f3 ok]
      video_size_gate_inclusive
        [where v = big_video and upd = InlineQueryUpdate and b = no_bot, OF g1 g2 g3 ok] f3 g3
      i3 i4
    by (simp add: tr no_bot_def)
qed

text \<open>
  C5. What the code does with a video whose probed size exceeds 20 MiB: in a command reply
  the text sent ends with the address of the video; as an inline result it is the article
  \<open>Video too big!\<close> with the message text \<open>Video too big\<close>, the same for every video, so the
  address is not part of what the user gets.
\<close>

theorem inline_too_large_without_link:
  assumes "v ''url'' = Some u"
    and "get_stream e u = Response st (Declared n)" and "\<not> raises_for_status st"
    and "20 * 1024 * 1024 < n"
  shows "get_videos_step e upd b v =
           (Inr [InlineQueryResultArticle ''Video too big!'' ''Video too big''],
            increase_context_counter b media_downloaded)
       \<and> (transport e (ReplyText (too_large_text u)) = None \<longrightarrow>
            command_send_videos_step e b v =
              (Inr (), increase_context_counter
                 (b\<lparr>sent := sent b @ [ReplyText (too_large_text u)]\<rparr>) media_downloaded))"
  using assms
  by (simp add: get_videos_step_def get_videos_try_def command_send_videos_step_def
      command_send_videos_try_def probe_size_def send_def)

theorem inline_too_large_without_link_witness:
  "get_videos_step demo_env InlineQueryUpdate no_bot big_video =
     (Inr [InlineQueryResultArticle ''Video too big!'' ''Video too big''],
      increase_context_counter no_bot media_downloaded)
   \<and> command_send_videos_step demo_env no_bot big_video =
     (Inr (), increase_context_counter
        (no_bot\<lparr>sent := [ReplyText (too_large_text ''https://video.twimg.com/big.mp4'')]\<rparr>)
        media_downloaded)
   \<and> sent (snd (inline_query demo_env no_bot ''https://x.com/a/status/3'')) =
     [AnswerInline [InlineQueryResultArticle ''Video too big!'' ''Video too big'']]
   \<and> sent (snd (grab_command demo_env no_bot ''https://x.com/a/status/3'')) =
     [ReplyText ''tweet: https://x.com/a/status/3'',
      ReplyText (too_large_text ''https://video.twimg.com/big.mp4''),
      DeleteMessage]"
proof -
  have g1: "big_video ''url'' = Some ''https://video.twimg.com/big.mp4''"
    by (simp add: big_video_def mk_video_def)
  have g3: "get_stream demo_env ''https://video.twimg.com/big.mp4'' = Response 200 (Declared 20971521)"
    by (simp add: demo_env_def)
  have ok: "\<not> raises_for_status 200"
    by (simp add: raises_for_status_def)
  have big: "20 * 1024 * 1024 < (20971521 :: int)"
    by simp
  have tr: "transport demo_env = (\<lambda>m. None)"
    by (simp add: demo_env_def)
  have i: "sent (snd (inline_query demo_env no_bot ''https://x.com/a/status/3'')) =
     [AnswerInline [InlineQueryResultArticle ''Video too big!'' ''Video too big'']]"
    by code_simp
  have c: "sent (snd (grab_command demo_env no_bot ''https://x.com/a/status/3'')) =
     [ReplyText ''tweet: https://x.com/a/status/3'',
      ReplyText (too_large_text ''https://video.twimg.com/big.mp4''),
      DeleteMessage]"
    by code_simp
  show ?thesis
    using inline_too_large_without_link
        [where v = big_video and upd = InlineQueryUpdate and b = no_bot, OF g1 g3 ok big] i c
    by (simp add: tr no_bot_def)
qed

text \<open>
  C2. What \<open>grab_command\<close> does when the metadata fetch of the first identifier raises: the
  exception leaves the handler. The acknowledgement \<open>tweet: ...\<close> is the only message sent,
  no failure text follows, the command message is not deleted, the identifiers behind the
  failing one are not processed, and the counters are as they were.
\<close>

theorem grab_command_fetch_error_aborts:
  assumes "correct_twitter_pattern url"
    and "extract_tweet_ids e url = Some (i # rest)"
    and "scrape_media e i = Inl err"
    and "transport e (ReplyText (''tweet: '' @ url)) = None"
  shows "grab_command e b url = (Inl err, b\<lparr>sent := sent b @ [ReplyText (''tweet: '' @ url)]\<rparr>)"
  using assms by (simp add: grab_command_def send_def)

theorem grab_command_fetch_error_aborts_witness:
  "grab_command demo_env some_bot ''https://x.com/alice/status/404'' =
     (Inl HTTPError,
      some_bot\<lparr>sent := [ReplyText ''earlier'', ReplyText ''tweet: https://x.com/alice/status/404'']\<rparr>)
   \<and> grab_command demo_env some_bot ''https://x.com/alice/status/6'' =
     (Inl KeyError,
      some_bot\<lparr>sent := [ReplyText ''earlier'', ReplyText ''tweet: https://x.com/alice/status/6'']\<rparr>)"
proof -
  have p1: "correct_twitter_pattern ''https://x.com/alice/status/404''"
    and p2: "correct_twitter_pattern ''https://x.com/alice/status/6''"
    by code_simp+
  have x1: "extract_tweet_ids demo_env ''https://x.com/alice/status/404'' = Some [''404'']"
    and x2: "extract_tweet_ids demo_env ''https://x.com/alice/status/6'' = Some [''6'']"
    by code_simp+
  have s1: "scrape_media demo_env ''404'' = Inl HTTPError"
    and s2: "scrape_media demo_env ''6'' = Inl KeyError"
    by (simp_all add: scrape_media_def demo_env_def raises_for_status_def)
  have t1: "transport demo_env (ReplyText (''tweet: '' @ ''https://x.com/alice/status/404'')) = None"
    and t2: "transport demo_env (ReplyText (''tweet: '' @ ''https://x.com/alice/status/6'')) = None"
    by (simp_all add: demo_env_def)
  show ?thesis
    using grab_command_fetch_error_aborts [OF p1 x1 s1 t1, of some_bot]
      grab_command_fetch_error_aborts [OF p2 x2 s2 t2, of some_bot]
    by (simp add: some_bot_def)
qed

text \<open>
  C9. What the inline handler does with a query in which the search finds no identifier:
  \<open>extract_tweet_ids\<close> returns \<open>None\<close>, the loop over it raises \<open>TypeError\<close>, and the handler
  ends there. Nothing is answered, neither the "nothing found" article nor anything else,
  and no counter moves. The handler's own filter lets such queries through: a status link
  with a user name of 16 characters matches \<open>CORRECT_TWITTER_PATTERN\<close> and holds no
  identifier for the search, whose pattern allows 15 characters at most.
\<close>

theorem inline_query_without_identifier_unanswered:
  assumes "query \<noteq> []" and "extract_tweet_ids e query = None"
  shows "inline_query e b query = (Inl TypeError, b)"
  using assms by (simp add: inline_query_def)

theorem inline_query_without_identifier_unanswered_witness:
  "correct_twitter_pattern ''https://x.com/abcdefghijklmnop/status/1''
   \<and> extract_tweet_ids demo_env ''https://x.com/abcdefghijklmnop/status/1'' = None
   \<and> inline_query demo_env some_bot ''https://x.com/abcdefghijklmnop/status/1'' =
       (Inl TypeError, some_bot)"
proof -
  have p: "correct_twitter_pattern ''https://x.com/abcdefghijklmnop/status/1''"
    by code_simp
  have q: "''https://x.com/abcdefghijklmnop/status/1'' \<noteq> []"
    by simp
  have x: "extract_tweet_ids demo_env ''https://x.com/abcdefghijklmnop/status/1'' = None"
    by code_simp
  show ?thesis
    using inline_query_without_identifier_unanswered [OF q x, of some_bot] p x by simp
qed

text \<open>
  C1, as amended. The loop of the inline handler goes through all the extracted identifiers
  and does not stop early: every identifier whose descriptors are fetched, not empty and
  resolved without an exception replaces the results so far. So the answer consists of the
  decisions of the last such identifier (of the "nothing found" article when these are
  empty), whatever the identifiers before it yield.
\<close>

theorem inline_query_last_resolved_wins:
  assumes "query \<noteq> []" and "extract_tweet_ids e query = Some (earlier @ i # later)"
    and "inline_decisions e i = Some rs"
    and "\<forall>j\<in>set later. inline_decisions e j = None"
  shows "inline_query e b query =
           send e (increase_context_counter
                     (snd (inline_loop e b [] (earlier @ i # later))) messages_handled)
             (AnswerInline (if rs = [] then [nothing_found] else rs))"
proof -
  have "fst (inline_loop e b [] (earlier @ i # later)) = rs"
    using assms(3) foldl_keep [OF assms(4)]
    by (simp add: inline_loop_results)
  from inline_query_answer [OF assms(1) assms(2) this] show ?thesis .
qed

theorem inline_query_last_resolved_wins_witness:
  "inline_query demo_env no_bot ''https://x.com/a/status/1 https://x.com/b/status/2 x.com/c/status/404'' =
     send demo_env
       (increase_context_counter
          (snd (inline_loop demo_env no_bot [] ([''1''] @ ''2'' # [''404''])))
          messages_handled)
       (AnswerInline
          [InlineQueryResultPhoto ''https://pbs.twimg.com/media/B.jpg?format=jpg&name=orig''
             ''https://pbs.twimg.com/media/B.jpg?format=jpg&name=orig''])"
proof -
  have q: "''https://x.com/a/status/1 https://x.com/b/status/2 x.com/c/status/404'' \<noteq> []"
    by simp
  have x: "extract_tweet_ids demo_env
      ''https://x.com/a/status/1 https://x.com/b/status/2 x.com/c/status/404'' =
     Some ([''1''] @ ''2'' # [''404''])"
    by code_simp
  have d: "inline_decisions demo_env ''2'' =
     Some [InlineQueryResultPhoto ''https://pbs.twimg.com/media/B.jpg?format=jpg&name=orig''
             ''https://pbs.twimg.com/media/B.jpg?format=jpg&name=orig'']"
    by code_simp
  have n: "\<forall>j\<in>set [''404'']. inline_decisions demo_env j = None"
    by code_simp
  show ?thesis
    using inline_query_last_resolved_wins [OF q x d n, of no_bot] by simp
qed

text \<open>
  C1 as stated fails: for a query with the identifiers 1 and 2, each with one photo, the
  first identifier that yields an asset is 1, and the answer holds the photo of 2.
\<close>

theorem inline_query_first_yield_counterexample:
  "extract_tweet_ids demo_env ''https://x.com/a/status/1 https://x.com/b/status/2'' =
     Some [''1'', ''2'']
   \<and> first_yield demo_env [''1'', ''2''] =
       [InlineQueryResultPhoto ''https://pbs.twimg.com/media/A.jpg?format=jpg&name=orig''
          ''https://pbs.twimg.com/media/A.jpg?format=jpg&name=orig'']
   \<and> sent (snd (inline_query demo_env no_bot
         ''https://x.com/a/status/1 https://x.com/b/status/2'')) =
       [AnswerInline
          [InlineQueryResultPhoto ''https://pbs.twimg.com/media/B.jpg?format=jpg&name=orig''
             ''https://pbs.twimg.com/media/B.jpg?format=jpg&name=orig'']]"
  by code_simp

end
